theory Spec2Isabelle
  imports Main "HOL-Library.Sublist"
begin

section \<open>JavaScript values: errors and promises\<close>

text \<open>
  The three ways in which the code of \<^verbatim>\<open>index.js\<close> can fail. Calling a value that is
  not a function (\<^verbatim>\<open>this.#onChange()\<close> while the field is still \<^verbatim>\<open>undefined\<close>) throws a
  \<^verbatim>\<open>TypeError\<close>; \<^verbatim>\<open>fetch\<close> rejects when the request cannot be sent or answered; and
  \<^verbatim>\<open>res.json()\<close> rejects with a \<^verbatim>\<open>SyntaxError\<close> when the body is not JSON.
\<close>

datatype error = NotAFunction | NetworkFailure | MalformedJSON

text \<open>
  A promise is modelled by its eventual outcome: fulfilled with a value, rejected with
  an error, or never settled (a request that hangs).
\<close>

datatype 'a promise = Fulfilled 'a | Rejected error | Pending

text \<open>\<^verbatim>\<open>p.then(f)\<close>: \<open>f\<close> runs on fulfilment only; a rejection is passed on.\<close>

fun then_promise :: "'a promise \<Rightarrow> ('a \<Rightarrow> 'b promise) \<Rightarrow> 'b promise" where
  "then_promise (Fulfilled x) f = f x"
| "then_promise (Rejected e) f = Rejected e"
| "then_promise Pending f = Pending"

section \<open>The API object\<close>

text \<open>
  An item of the list, and the object \<^verbatim>\<open>{content: inputValue}\<close> that is posted. Ids
  and contents are strings: a template literal writes a string as it is, and the page
  hands an id back as the string value of an attribute.
\<close>

record todo =
  id :: string
  content :: string

record new_todo =
  new_content :: string

datatype http_method = GET | POST | DELETE

text \<open>
  The arguments of one call of \<^verbatim>\<open>fetch\<close>. The body is the object handed to
  \<^verbatim>\<open>JSON.stringify\<close> (the serialisation itself is the platform's).
\<close>

record request =
  url :: string
  http_method :: http_method
  headers :: "(string \<times> string) list"
  body :: "new_todo option"

text \<open>
  What \<^verbatim>\<open>fetch\<close> resolves to: the status line and the outcome of \<^verbatim>\<open>res.json()\<close>, which
  is the parsed body or the rejection of a body that does not parse.
\<close>

record 'j response =
  status :: nat
  json :: "'j promise"

text \<open>The range of statuses for which \<^verbatim>\<open>res.ok\<close> holds. No function of the code reads it.\<close>

definition ok :: "'j response \<Rightarrow> bool" where
  "ok res = (200 \<le> status res \<and> status res \<le> 299)"

text \<open>
  The remote side is a parameter: a function from the request to the outcome of
  \<^verbatim>\<open>fetch\<close>. \<open>fetch\<close> consults it and records the request in the list of the requests
  sent so far.
\<close>

type_synonym 'j server = "request \<Rightarrow> 'j response promise"

definition fetch :: "'j server \<Rightarrow> request \<Rightarrow> request list \<Rightarrow> 'j response promise \<times> request list" where
  "fetch server rq sent = (server rq, sent @ [rq])"

definition baseURL :: string where
  "baseURL = ''http://localhost:3000/todos''"

definition getTodos :: "'j server \<Rightarrow> request list \<Rightarrow> 'j promise \<times> request list" where
  "getTodos server sent =
     (case fetch server \<lparr>url = baseURL, http_method = GET, headers = [], body = None\<rparr> sent of
        (p, sent') \<Rightarrow> (then_promise p json, sent'))"

definition createTodo ::
  "'j server \<Rightarrow> new_todo \<Rightarrow> request list \<Rightarrow> 'j promise \<times> request list" where
  "createTodo server newTodo sent =
     (case fetch server
             \<lparr>url = baseURL, http_method = POST,
              headers = [(''Content-Type'', ''application/json'')],
              body = Some newTodo\<rparr> sent of
        (p, sent') \<Rightarrow> (then_promise p json, sent'))"

text \<open>
  The id comes from \<^verbatim>\<open>getAttribute("id")\<close>, a string or \<^verbatim>\<open>null\<close>; the template literal
  \<^verbatim>\<open>`${baseURL}/${id}`\<close> writes \<^verbatim>\<open>null\<close> as the text "null".
\<close>

definition template_string :: "string option \<Rightarrow> string" where
  "template_string v = (case v of None \<Rightarrow> ''null'' | Some s \<Rightarrow> s)"

definition deleteTodo ::
  "'j server \<Rightarrow> string option \<Rightarrow> request list \<Rightarrow> 'j promise \<times> request list" where
  "deleteTodo server i sent =
     (case fetch server
             \<lparr>url = baseURL @ ''/'' @ template_string i, http_method = DELETE,
              headers = [(''Content-Type'', ''application/json'')],
              body = None\<rparr> sent of
        (p, sent') \<Rightarrow> (then_promise p json, sent'))"

section \<open>The Model object: class state\<close>

text \<open>
  The private fields \<^verbatim>\<open>#todos\<close> and \<^verbatim>\<open>#onChange\<close>. The callback is a closure without
  parameters; it reaches the list through the getter and acts on the rest of the world
  \<open>'w\<close> (for the application, the page). Its first argument here is what
  \<^verbatim>\<open>state.todos\<close> evaluates to while it runs. A callback is taken to return normally.
\<close>

record ('a, 'w) state =
  todos :: "'a list"
  onChange :: "('a list \<Rightarrow> 'w \<Rightarrow> 'w) option"

definition constructor :: "('a, 'w) state" where
  "constructor = \<lparr>todos = [], onChange = None\<rparr>"

definition get_todos :: "('a, 'w) state \<Rightarrow> 'a list" where
  "get_todos s = todos s"

text \<open>
  The setter stores the new list first and calls the field \<^verbatim>\<open>#onChange\<close> second. The
  call of a field that was never set throws, after the store.
\<close>

definition set_todos ::
  "('a, 'w) state \<Rightarrow> 'a list \<Rightarrow> 'w \<Rightarrow> ('a, 'w) state \<times> (error + 'w)" where
  "set_todos s newTodos w =
     (let s' = s\<lparr>todos := newTodos\<rparr>
      in case onChange s' of
           None \<Rightarrow> (s', Inl NotAFunction)
         | Some cb \<Rightarrow> (s', Inr (cb (get_todos s') w)))"

definition subscribe :: "('a, 'w) state \<Rightarrow> ('a list \<Rightarrow> 'w \<Rightarrow> 'w) \<Rightarrow> ('a, 'w) state" where
  "subscribe s cb = s\<lparr>onChange := Some cb\<rparr>"

text \<open>
  A run of assignments, one statement after the other: an exception thrown by one of
  them ends the run.
\<close>

fun assign_all ::
  "('a, 'w) state \<Rightarrow> 'a list list \<Rightarrow> 'w \<Rightarrow> ('a, 'w) state \<times> (error + 'w)" where
  "assign_all s [] w = (s, Inr w)"
| "assign_all s (v # vs) w =
     (case set_todos s v w of
        (s', Inl e) \<Rightarrow> (s', Inl e)
      | (s', Inr w') \<Rightarrow> assign_all s' vs w')"

text \<open>
  Callbacks that keep a record of their calls: the first appends the list it reads
  through the getter to a log, the other two count their calls in one component of a
  pair each.
\<close>

definition log_call :: "'a list \<Rightarrow> 'a list list \<Rightarrow> 'a list list" where
  "log_call observed calls = calls @ [observed]"

definition count_fst :: "'a list \<Rightarrow> nat \<times> nat \<Rightarrow> nat \<times> nat" where
  "count_fst observed c = (Suc (fst c), snd c)"

definition count_snd :: "'a list \<Rightarrow> nat \<times> nat \<Rightarrow> nat \<times> nat" where
  "count_snd observed c = (fst c, Suc (snd c))"

section \<open>The View object\<close>

text \<open>
  The part of the page the code reads and writes: the value of the input field
  \<^verbatim>\<open>#todo_input\<close> and the markup of the container \<^verbatim>\<open>#todo_list-container\<close>.
\<close>

record view =
  inputEl_value :: string
  todolistEl_innerHTML :: string

definition getInputValue :: "view \<Rightarrow> string" where
  "getInputValue v = inputEl_value v"

definition clearInput :: "view \<Rightarrow> view" where
  "clearInput v = v\<lparr>inputEl_value := ''''\<rparr>"

text \<open>
  The template literal of \<^verbatim>\<open>renderTodos\<close>, with its line breaks and indentation. The id
  and the content are interpolated as they are.
\<close>

definition todoItemTemp :: "todo \<Rightarrow> string" where
  \<open>todoItemTemp t =
     CHR 0x0A # ''                <div id='' @ id t @ ''>'' @
     CHR 0x0A # ''                    '' @ content t @
     CHR 0x0A # ''                    <button class="todo_delete-btn">delete</button>'' @
     CHR 0x0A # ''                </div>'' @
     CHR 0x0A # ''            ''\<close>

text \<open>\<^verbatim>\<open>forEach\<close> with the accumulator \<^verbatim>\<open>todosTemp\<close>, then the assignment to \<^verbatim>\<open>innerHTML\<close>.\<close>

definition renderTodos :: "todo list \<Rightarrow> view \<Rightarrow> view" where
  "renderTodos ts v =
     (let todosTemp = foldl (\<lambda>acc t. acc @ todoItemTemp t) '''' ts
      in v\<lparr>todolistEl_innerHTML := todosTemp\<rparr>)"

text \<open>
  What the click listener of the container reads from \<^verbatim>\<open>event.target\<close>: its class name
  and the \<^verbatim>\<open>id\<close> attribute of its parent element (\<^verbatim>\<open>null\<close> when the parent has none).
\<close>

record element =
  className :: string
  parentElement_id :: "string option"

section \<open>The Controller object\<close>

text \<open>
  The state of the running application: the state object of the controller, the page,
  the requests sent so far, and the rejections nothing handles (no promise chain of the
  code has a \<^verbatim>\<open>catch\<close>).
\<close>

record app =
  state :: "(todo, view) state"
  view :: view
  sent :: "request list"
  unhandled :: "error list"

definition Controller :: "view \<Rightarrow> app" where
  "Controller page = \<lparr>state = constructor, view = page, sent = [], unhandled = []\<rparr>"

text \<open>
  \<^verbatim>\<open>p.then(k)\<close> at the end of a chain: the continuation runs when the promise is
  fulfilled; a rejection stays unhandled; a promise that never settles changes nothing.
  An event handler and the continuations it starts are run to their end before the next
  event.
\<close>

definition on_settled :: "'a promise \<Rightarrow> ('a \<Rightarrow> app \<Rightarrow> app) \<Rightarrow> app \<Rightarrow> app" where
  "on_settled p k a =
     (case p of
        Fulfilled x \<Rightarrow> k x a
      | Rejected e \<Rightarrow> a\<lparr>unhandled := unhandled a @ [e]\<rparr>
      | Pending \<Rightarrow> a)"

text \<open>
  \<^verbatim>\<open>state.todos = data\<close> inside a continuation: the setter acts on the page through the
  callback; if it throws, the continuation ends there and its promise is rejected.
\<close>

definition assign_todos :: "todo list \<Rightarrow> app \<Rightarrow> app" where
  "assign_todos data a =
     (case set_todos (state a) data (view a) of
        (s', Inl e) \<Rightarrow> a\<lparr>state := s', unhandled := unhandled a @ [e]\<rparr>
      | (s', Inr v') \<Rightarrow> a\<lparr>state := s', view := v'\<rparr>)"

text \<open>The continuation of the add handler: append the created item, then clear the input.\<close>

definition add_then :: "todo \<Rightarrow> app \<Rightarrow> app" where
  "add_then data a =
     (case set_todos (state a) (get_todos (state a) @ [data]) (view a) of
        (s', Inl e) \<Rightarrow> a\<lparr>state := s', unhandled := unhandled a @ [e]\<rparr>
      | (s', Inr v') \<Rightarrow> a\<lparr>state := s', view := clearInput v'\<rparr>)"

text \<open>
  The click listener of the add button. \<^verbatim>\<open>setUpAddHandler\<close>, called at the end of
  \<^verbatim>\<open>init\<close>, installs it and does nothing else; \<^verbatim>\<open>event.preventDefault()\<close> touches
  nothing of the state kept here.
\<close>

definition addBtnEl_click :: "todo server \<Rightarrow> app \<Rightarrow> app" where
  "addBtnEl_click server a =
     (let inputValue = getInputValue (view a);
          newTodo = \<lparr>new_content = inputValue\<rparr>
      in case createTodo server newTodo (sent a) of
           (p, sent') \<Rightarrow> on_settled p add_then (a\<lparr>sent := sent'\<rparr>))"

text \<open>
  The click listener of the container. The second continuation of the chain fetches
  the list again; the third assigns it.
\<close>

definition refetch :: "todo list server \<Rightarrow> app \<Rightarrow> app" where
  "refetch server a =
     (case getTodos server (sent a) of
        (q, sent') \<Rightarrow> on_settled q assign_todos (a\<lparr>sent := sent'\<rparr>))"

definition todolistEl_click ::
  "'j server \<Rightarrow> todo list server \<Rightarrow> element \<Rightarrow> app \<Rightarrow> app" where
  "todolistEl_click del_server get_server element a =
     (if className element = ''todo_delete-btn'' then
        (let i = parentElement_id element
         in case deleteTodo del_server i (sent a) of
              (p, sent') \<Rightarrow>
                on_settled p (\<lambda>_. refetch get_server) (a\<lparr>sent := sent'\<rparr>))
      else a)"

text \<open>
  \<^verbatim>\<open>init\<close>: subscribe the render callback, fetch the list and assign it when it arrives.
  \<open>init_sync\<close> is the part that runs before the answer: it returns the pending promise.
\<close>

definition init_sync :: "todo list server \<Rightarrow> app \<Rightarrow> todo list promise \<times> app" where
  "init_sync server a =
     (let a' = a\<lparr>state := subscribe (state a) renderTodos\<rparr>
      in case getTodos server (sent a') of
           (p, sent') \<Rightarrow> (p, a'\<lparr>sent := sent'\<rparr>))"

definition init :: "todo list server \<Rightarrow> app \<Rightarrow> app" where
  "init server a = (case init_sync server a of (p, a') \<Rightarrow> on_settled p assign_todos a')"

section \<open>Observations and test data\<close>

text \<open>
  The number of places of a text at which a given piece of markup starts: the number
  of opening tags of a block, or of delete buttons, in the markup of the container.
\<close>

fun occurrences :: "string \<Rightarrow> string \<Rightarrow> nat" where
  "occurrences p [] = 0"
| "occurrences p (c # cs) = (if prefix p (c # cs) then 1 else 0) + occurrences p cs"

definition block_open :: string where
  "block_open = ''<div id=''"

definition delete_control :: string where
  \<open>delete_control = ''<button class="todo_delete-btn">delete</button>''\<close>

text \<open>A remote side that gives every request the same answer.\<close>

definition answer :: "'j response promise \<Rightarrow> 'j server" where
  "answer r rq = r"

text \<open>A page and two items, for the examples.\<close>

definition page0 :: view where
  "page0 = \<lparr>inputEl_value = ''Buy milk'', todolistEl_innerHTML = ''''\<rparr>"

definition item42 :: todo where
  "item42 = \<lparr>id = ''42'', content = ''Buy milk''\<rparr>"

definition item7 :: todo where
  "item7 = \<lparr>id = ''7'', content = ''Walk the dog''\<rparr>"

text \<open>The application after \<^verbatim>\<open>init\<close>, with the remote list holding the one item 7.\<close>

definition app0 :: app where
  "app0 = init (answer (Fulfilled \<lparr>status = 200, json = Fulfilled [item7]\<rparr>)) (Controller page0)"

section \<open>The state object\<close>

lemma set_todos_subscribed:
  assumes "onChange s = Some cb"
  shows "set_todos s v w = (s\<lparr>todos := v\<rparr>, Inr (cb v w))"
  using assms by (simp add: set_todos_def get_todos_def Let_def)

lemma assign_all_subscribed:
  assumes "onChange s = Some cb"
  shows "assign_all s vs w =
           (s\<lparr>todos := last (todos s # vs)\<rparr>, Inr (foldl (\<lambda>w v. cb v w) w vs))"
  using assms
proof (induction vs arbitrary: s w)
  case Nil
  then show ?case by simp
next
  case (Cons v vs)
  have step: "set_todos s v w = (s\<lparr>todos := v\<rparr>, Inr (cb v w))"
    using Cons.prems by (rule set_todos_subscribed)
  have "onChange (s\<lparr>todos := v\<rparr>) = Some cb"
    using Cons.prems by simp
  from Cons.IH [OF this] show ?case
    by (simp add: step)
qed

lemma foldl_log_call: "foldl (\<lambda>w v. log_call v w) calls vs = calls @ vs"
  by (induction vs arbitrary: calls) (simp_all add: log_call_def)

text \<open>
  Claim C10. A state object that was just constructed holds the empty list: the getter
  returns \<open>[]\<close> on a new object, on the state of the controller before \<^verbatim>\<open>init\<close>, after
  the part of \<^verbatim>\<open>init\<close> that runs before the first answer arrives, and for as long as
  that answer does not arrive.
\<close>

theorem fresh_state_empty:
  "get_todos (constructor :: ('a, 'w) state) = []
   \<and> get_todos (state (Controller page)) = []
   \<and> get_todos (state (snd (init_sync server (Controller page)))) = []
   \<and> get_todos (state (init (answer Pending) (Controller page))) = []"
proof (intro conjI)
  show "get_todos (constructor :: ('a, 'w) state) = []"
    by (simp add: get_todos_def constructor_def)
  show "get_todos (state (Controller page)) = []"
    by (simp add: get_todos_def constructor_def Controller_def)
  have sync: "state (snd (init_sync srv (Controller page))) = subscribe constructor renderTodos"
    for srv
    by (simp add: init_sync_def Controller_def getTodos_def fetch_def Let_def)
  have sub: "get_todos (subscribe constructor renderTodos) = []"
    by (simp add: get_todos_def subscribe_def constructor_def)
  show "get_todos (state (snd (init_sync server (Controller page)))) = []"
    by (simp only: sync sub)
  have pending: "init (answer Pending) (Controller page) =
                   snd (init_sync (answer Pending) (Controller page))"
    by (simp add: init_def init_sync_def getTodos_def fetch_def answer_def on_settled_def
        Let_def)
  show "get_todos (state (init (answer Pending) (Controller page))) = []"
    by (simp only: pending sync sub)
qed

theorem fresh_state_empty_witness:
  "get_todos (state (init (answer Pending)
      (Controller \<lparr>inputEl_value = ''milk'', todolistEl_innerHTML = ''''\<rparr>))) = []"
  using fresh_state_empty
    [where 'a = nat and 'w = nat,
     of "\<lparr>inputEl_value = ''milk'', todolistEl_innerHTML = ''''\<rparr>" "answer Pending"]
  by simp

text \<open>
  Claim C1, as the code has it. On a state object with no callback registered, an
  assignment to \<^verbatim>\<open>todos\<close> replaces the list and then throws a \<^verbatim>\<open>TypeError\<close>: the setter
  calls the field \<^verbatim>\<open>#onChange\<close> with no test, and the field is \<^verbatim>\<open>undefined\<close>. Nothing
  but the list changes.
\<close>

theorem assignment_without_callback:
  assumes "onChange s = None"
  shows "set_todos s newTodos w = (s\<lparr>todos := newTodos\<rparr>, Inl NotAFunction)"
proof -
  have "onChange (s\<lparr>todos := newTodos\<rparr>) = None"
    using assms by simp
  then show ?thesis
    by (simp add: set_todos_def Let_def)
qed

theorem assignment_without_callback_witness:
  "onChange (constructor :: (nat, nat) state) = None
   \<and> set_todos (constructor :: (nat, nat) state) [1, 2] 0 =
       (\<lparr>todos = [1, 2], onChange = None\<rparr>, Inl NotAFunction)"
proof -
  have none: "onChange (constructor :: (nat, nat) state) = None"
    by (simp add: constructor_def)
  from assignment_without_callback [OF none, of "[1, 2]" 0] none show ?thesis
    by (simp add: constructor_def)
qed

text \<open>
  Claim C1, as the specification states it, fails: the assignment to a new state object
  does not succeed without error, it ends in the \<^verbatim>\<open>TypeError\<close>.
\<close>

theorem assignment_without_callback_counterexample:
  "onChange (constructor :: (nat, nat) state) = None
   \<and> snd (set_todos (constructor :: (nat, nat) state) [1] 0) = Inl NotAFunction"
  by (simp add: set_todos_def constructor_def Let_def)

text \<open>
  Claim C3. On a state object with a registered callback, an assignment replaces the
  list and then applies the callback once, within the assignment, to the list just
  assigned (what the getter returns at that moment). Over a run of assignments the
  callback is applied once per assignment, in order: a callback that logs what it reads
  ends with the assigned values appended to its log, one entry each.
\<close>

theorem callback_once_per_assignment:
  "set_todos (subscribe s cb) v w = ((subscribe s cb)\<lparr>todos := v\<rparr>, Inr (cb v w))
   \<and> get_todos (fst (set_todos (subscribe s cb) v w)) = v
   \<and> assign_all (subscribe s cb) vs w =
       ((subscribe s cb)\<lparr>todos := last (todos s # vs)\<rparr>, Inr (foldl (\<lambda>w v. cb v w) w vs))
   \<and> snd (assign_all (subscribe s' log_call) vs calls) = Inr (calls @ vs)"
proof -
  have sub: "onChange (subscribe s cb) = Some cb"
    by (simp add: subscribe_def)
  have one: "set_todos (subscribe s cb) v w = ((subscribe s cb)\<lparr>todos := v\<rparr>, Inr (cb v w))"
    using sub by (rule set_todos_subscribed)
  have read: "get_todos (fst (set_todos (subscribe s cb) v w)) = v"
    by (simp add: one get_todos_def)
  have same: "todos (subscribe s cb) = todos s"
    by (simp add: subscribe_def)
  have run: "assign_all (subscribe s cb) vs w =
      ((subscribe s cb)\<lparr>todos := last (todos s # vs)\<rparr>, Inr (foldl (\<lambda>w v. cb v w) w vs))"
    using assign_all_subscribed [OF sub, of vs w] by (simp only: same)
  have sub': "onChange (subscribe s' log_call) = Some log_call"
    by (simp add: subscribe_def)
  have logged: "snd (assign_all (subscribe s' log_call) vs calls) = Inr (calls @ vs)"
    using assign_all_subscribed [OF sub', of vs calls] by (simp add: foldl_log_call)
  from one read run logged show ?thesis
    by blast
qed

theorem callback_once_per_assignment_witness:
  "snd (assign_all (subscribe (constructor :: (nat, nat list list) state) log_call)
         [[1], [], [2, 3]] []) = Inr [[1], [], [2, 3]]"
proof -
  have "snd (assign_all (subscribe (constructor :: (nat, nat list list) state) log_call)
               [[1], [], [2, 3]] []) = Inr ([] @ [[1], [], [2, 3]])"
    using callback_once_per_assignment
      [of "constructor :: (nat, nat list list) state" log_call "[]" "[]" "[[1], [], [2, 3]]"
        "constructor :: (nat, nat list list) state" "[]"]
    by blast
  then show ?thesis
    by (simp only: append_Nil)
qed

text \<open>
  Claim C7. After \<^verbatim>\<open>subscribe(f)\<close> and then \<^verbatim>\<open>subscribe(g)\<close> the one registered callback is
  \<open>g\<close>: an assignment applies \<open>g\<close> once and does not depend on \<open>f\<close>. With two callbacks
  that count their calls, the count of the first stays where it was and the count of
  the second goes up by one.
\<close>

theorem subscribe_replaces:
  "onChange (subscribe (subscribe s f) g) = Some g
   \<and> set_todos (subscribe (subscribe s f) g) v w =
       (s\<lparr>todos := v, onChange := Some g\<rparr>, Inr (g v w))
   \<and> snd (set_todos (subscribe (subscribe s' count_fst) count_snd) v' (m, n)) =
       Inr (m, Suc n)"
proof -
  have reg: "onChange (subscribe (subscribe s f) g) = Some g"
    by (simp add: subscribe_def)
  have call: "set_todos (subscribe (subscribe s f) g) v w =
                (s\<lparr>todos := v, onChange := Some g\<rparr>, Inr (g v w))"
    using set_todos_subscribed [OF reg, of v w] by (simp add: subscribe_def)
  have reg': "onChange (subscribe (subscribe s' count_fst) count_snd) = Some count_snd"
    by (simp add: subscribe_def)
  have counts: "snd (set_todos (subscribe (subscribe s' count_fst) count_snd) v' (m, n)) =
                  Inr (m, Suc n)"
    using set_todos_subscribed [OF reg', of v' "(m, n)"] by (simp add: count_snd_def)
  from reg call counts show ?thesis
    by simp
qed

theorem subscribe_replaces_witness:
  "snd (set_todos (subscribe (subscribe (constructor :: (nat, nat \<times> nat) state) count_fst)
          count_snd) [7] (0, 0)) = Inr (0, 1)"
  using subscribe_replaces
    [of "constructor :: (nat, nat \<times> nat) state" count_fst count_snd "[7]" "(0, 0)"
        "constructor :: (nat, nat \<times> nat) state" "[7]" 0 0]
  by (simp add: count_snd_def)

section \<open>The API object: what the three calls resolve to\<close>

lemma then_promise_cases:
  "then_promise p f =
     (case p of Fulfilled x \<Rightarrow> f x | Rejected e \<Rightarrow> Rejected e | Pending \<Rightarrow> Pending)"
  by (cases p) simp_all

text \<open>
  Claim C2, as the code has it. Each of \<^verbatim>\<open>getTodos\<close>, \<^verbatim>\<open>createTodo\<close> and \<^verbatim>\<open>deleteTodo\<close>
  sends one request; its result is rejected when \<^verbatim>\<open>fetch\<close> is rejected (the transport
  failed) and is otherwise the outcome of \<^verbatim>\<open>res.json()\<close>, whatever the status of the
  response: the parsed body when the body parses, also under a status outside 200..299,
  and a rejection when it does not. The status is never read.
\<close>

theorem api_results:
  "fst (getTodos server rqs) =
     (case server \<lparr>url = baseURL, http_method = GET, headers = [], body = None\<rparr> of
        Fulfilled res \<Rightarrow> json res | Rejected e \<Rightarrow> Rejected e | Pending \<Rightarrow> Pending)
   \<and> fst (createTodo server newTodo rqs) =
     (case server \<lparr>url = baseURL, http_method = POST,
                   headers = [(''Content-Type'', ''application/json'')],
                   body = Some newTodo\<rparr> of
        Fulfilled res \<Rightarrow> json res | Rejected e \<Rightarrow> Rejected e | Pending \<Rightarrow> Pending)
   \<and> fst (deleteTodo server i rqs) =
     (case server \<lparr>url = baseURL @ ''/'' @ template_string i, http_method = DELETE,
                   headers = [(''Content-Type'', ''application/json'')],
                   body = None\<rparr> of
        Fulfilled res \<Rightarrow> json res | Rejected e \<Rightarrow> Rejected e | Pending \<Rightarrow> Pending)
   \<and> fst (getTodos (answer (Fulfilled \<lparr>status = st, json = Fulfilled j\<rparr>)) rqs) = Fulfilled j
   \<and> fst (createTodo (answer (Fulfilled \<lparr>status = st, json = Fulfilled j\<rparr>)) newTodo rqs) =
       Fulfilled j
   \<and> fst (deleteTodo (answer (Fulfilled \<lparr>status = st, json = Fulfilled j\<rparr>)) i rqs) =
       Fulfilled j"
proof (intro conjI)
  show "fst (getTodos server rqs) =
     (case server \<lparr>url = baseURL, http_method = GET, headers = [], body = None\<rparr> of
        Fulfilled res \<Rightarrow> json res | Rejected e \<Rightarrow> Rejected e | Pending \<Rightarrow> Pending)"
    by (simp add: getTodos_def fetch_def then_promise_cases)
  show "fst (createTodo server newTodo rqs) =
     (case server \<lparr>url = baseURL, http_method = POST,
                   headers = [(''Content-Type'', ''application/json'')],
                   body = Some newTodo\<rparr> of
        Fulfilled res \<Rightarrow> json res | Rejected e \<Rightarrow> Rejected e | Pending \<Rightarrow> Pending)"
    by (simp add: createTodo_def fetch_def then_promise_cases)
  show "fst (deleteTodo server i rqs) =
     (case server \<lparr>url = baseURL @ ''/'' @ template_string i, http_method = DELETE,
                   headers = [(''Content-Type'', ''application/json'')],
                   body = None\<rparr> of
        Fulfilled res \<Rightarrow> json res | Rejected e \<Rightarrow> Rejected e | Pending \<Rightarrow> Pending)"
    by (simp add: deleteTodo_def fetch_def then_promise_cases)
  show "fst (getTodos (answer (Fulfilled \<lparr>status = st, json = Fulfilled j\<rparr>)) rqs) = Fulfilled j"
    by (simp add: getTodos_def fetch_def answer_def)
  show "fst (createTodo (answer (Fulfilled \<lparr>status = st, json = Fulfilled j\<rparr>)) newTodo rqs) =
          Fulfilled j"
    by (simp add: createTodo_def fetch_def answer_def)
  show "fst (deleteTodo (answer (Fulfilled \<lparr>status = st, json = Fulfilled j\<rparr>)) i rqs) =
          Fulfilled j"
    by (simp add: deleteTodo_def fetch_def answer_def)
qed

theorem api_results_witness:
  "fst (createTodo (answer (Fulfilled \<lparr>status = 500, json = Fulfilled item42\<rparr>))
          \<lparr>new_content = ''Buy milk''\<rparr> []) = Fulfilled item42
   \<and> fst (deleteTodo (answer (Fulfilled \<lparr>status = 500, json = Fulfilled item42\<rparr>))
            (Some ''42'') []) = Fulfilled item42"
  using api_results
    [where server = "answer Pending" and st = 500 and j = item42
       and newTodo = "\<lparr>new_content = ''Buy milk''\<rparr>" and rqs = "[]" and i = "Some ''42''"]
  by blast

text \<open>
  Claim C2, as the specification states it, fails: a response with status 404 and a body
  that parses makes \<^verbatim>\<open>getTodos\<close> resolve to that body.
\<close>

theorem api_results_counterexample:
  "\<not> ok \<lparr>status = 404, json = Fulfilled [item7]\<rparr>
   \<and> fst (getTodos (answer (Fulfilled \<lparr>status = 404, json = Fulfilled [item7]\<rparr>)) []) =
       Fulfilled [item7]"
  by (simp add: ok_def getTodos_def fetch_def answer_def)

section \<open>The Controller object: the three flows\<close>

lemma assign_todos_result:
  "get_todos (state (assign_todos data a)) = data
   \<and> sent (assign_todos data a) = sent a
   \<and> (case onChange (state a) of
         Some cb \<Rightarrow> view (assign_todos data a) = cb data (view a)
                     \<and> unhandled (assign_todos data a) = unhandled a
       | None \<Rightarrow> view (assign_todos data a) = view a
                     \<and> unhandled (assign_todos data a) = unhandled a @ [NotAFunction])"
  by (cases "onChange (state a)")
     (simp_all add: assign_todos_def set_todos_def get_todos_def Let_def)

lemma add_then_result:
  "get_todos (state (add_then t a)) = get_todos (state a) @ [t]
   \<and> sent (add_then t a) = sent a
   \<and> (case onChange (state a) of
         Some cb \<Rightarrow> view (add_then t a) = clearInput (cb (get_todos (state a) @ [t]) (view a))
                     \<and> unhandled (add_then t a) = unhandled a
       | None \<Rightarrow> view (add_then t a) = view a
                     \<and> unhandled (add_then t a) = unhandled a @ [NotAFunction])"
  by (cases "onChange (state a)")
     (simp_all add: add_then_def set_todos_def get_todos_def Let_def)

lemma sent_on_settled:
  assumes "\<And>x b. sent (k x b) = sent b"
  shows "sent (on_settled p k a) = sent a"
  using assms by (cases p) (simp_all add: on_settled_def)

lemma app0_eq:
  "app0 = \<lparr>state = \<lparr>todos = [item7], onChange = Some renderTodos\<rparr>,
           view = renderTodos [item7] page0,
           sent = [\<lparr>url = baseURL, http_method = GET, headers = [], body = None\<rparr>],
           unhandled = []\<rparr>"
  by (simp add: app0_def init_def init_sync_def getTodos_def fetch_def answer_def
      on_settled_def assign_todos_def set_todos_def get_todos_def subscribe_def
      constructor_def Controller_def Let_def)

text \<open>
  Claim C8. A click in the container on an element whose class name is not
  \<^verbatim>\<open>todo_delete-btn\<close> leaves the whole application state as it was: no request is sent and
  the list, the page and the callback are unchanged.
\<close>

theorem other_click_does_nothing:
  assumes "className element \<noteq> ''todo_delete-btn''"
  shows "todolistEl_click del_server get_server element a = a"
proof -
  have "\<not> className element = ''todo_delete-btn''"
    using assms by simp
  then show ?thesis
    unfolding todolistEl_click_def by (rule if_not_P)
qed

theorem other_click_does_nothing_witness:
  "className \<lparr>className = ''todo_item'', parentElement_id = Some ''7''\<rparr> \<noteq> ''todo_delete-btn''
   \<and> sent (todolistEl_click (answer (Fulfilled \<lparr>status = 200, json = Fulfilled ''{}''\<rparr>))
             (answer (Fulfilled \<lparr>status = 200, json = Fulfilled []\<rparr>))
             \<lparr>className = ''todo_item'', parentElement_id = Some ''7''\<rparr> app0) = sent app0
   \<and> get_todos (state (todolistEl_click (answer (Fulfilled \<lparr>status = 200, json = Fulfilled ''{}''\<rparr>))
             (answer (Fulfilled \<lparr>status = 200, json = Fulfilled []\<rparr>))
             \<lparr>className = ''todo_item'', parentElement_id = Some ''7''\<rparr> app0)) = [item7]"
proof -
  let ?el = "\<lparr>className = ''todo_item'', parentElement_id = Some ''7''\<rparr>"
  have other: "className ?el \<noteq> ''todo_delete-btn''"
    by simp
  have "todolistEl_click (answer (Fulfilled \<lparr>status = 200, json = Fulfilled ''{}''\<rparr>))
          (answer (Fulfilled \<lparr>status = 200, json = Fulfilled []\<rparr>)) ?el app0 = app0"
    using other by (rule other_click_does_nothing)
  with other show ?thesis
    by (simp add: app0_eq get_todos_def)
qed

text \<open>
  Claim C9, as the code has it. \<^verbatim>\<open>deleteTodo\<close> runs \<^verbatim>\<open>res.json()\<close> on the confirmation.
  When the body parses, it resolves to the parsed body and the click handler drops it:
  the continuation takes no argument, so two confirmations with different statuses and
  parsed bodies (of any two types) lead to the same application state, the one reached
  by fetching the list again, which sends the request for the list and, when that
  resolves to \<open>fetched\<close>, leaves \<open>fetched\<close> as the list. When the body does not parse,
  \<^verbatim>\<open>deleteTodo\<close> is rejected: the delete request is the only one sent, the list and the
  page stay as they were, and the rejection is left unhandled.
\<close>

theorem delete_confirmation:
  "fst (deleteTodo (answer (Fulfilled \<lparr>status = st, json = Fulfilled j\<rparr>)) i rqs) = Fulfilled j
   \<and> fst (deleteTodo (answer (Fulfilled \<lparr>status = st, json = Rejected e\<rparr>)) i rqs) =
       (Rejected e :: 'j promise)
   \<and> todolistEl_click (answer (Fulfilled \<lparr>status = st, json = Fulfilled j\<rparr>))
         get_server element a =
       todolistEl_click (answer (Fulfilled \<lparr>status = st', json = Fulfilled j'\<rparr>))
         get_server element a
   \<and> todolistEl_click (answer (Fulfilled \<lparr>status = st, json = Fulfilled j\<rparr>)) get_server
         \<lparr>className = ''todo_delete-btn'', parentElement_id = i\<rparr> a =
       refetch get_server
         (a\<lparr>sent := sent a @
                 [\<lparr>url = baseURL @ ''/'' @ template_string i, http_method = DELETE,
                   headers = [(''Content-Type'', ''application/json'')], body = None\<rparr>]\<rparr>)
   \<and> sent (refetch get_server b) =
       sent b @ [\<lparr>url = baseURL, http_method = GET, headers = [], body = None\<rparr>]
   \<and> get_todos (state (refetch (answer (Fulfilled \<lparr>status = gst, json = Fulfilled fetched\<rparr>)) b)) =
       fetched
   \<and> todolistEl_click
         (answer (Fulfilled \<lparr>status = st, json = (Rejected e :: 'j promise)\<rparr>)) get_server
         \<lparr>className = ''todo_delete-btn'', parentElement_id = i\<rparr> a =
       a\<lparr>sent := sent a @
               [\<lparr>url = baseURL @ ''/'' @ template_string i, http_method = DELETE,
                 headers = [(''Content-Type'', ''application/json'')], body = None\<rparr>],
         unhandled := unhandled a @ [e]\<rparr>"
proof (intro conjI)
  let ?del = "\<lparr>url = baseURL @ ''/'' @ template_string i, http_method = DELETE,
               headers = [(''Content-Type'', ''application/json'')], body = None\<rparr>"
  let ?get = "\<lparr>url = baseURL, http_method = GET, headers = [], body = None\<rparr>"
  show "fst (deleteTodo (answer (Fulfilled \<lparr>status = st, json = Fulfilled j\<rparr>)) i rqs) =
          Fulfilled j"
    by (simp add: deleteTodo_def fetch_def answer_def)
  show "fst (deleteTodo (answer (Fulfilled \<lparr>status = st, json = Rejected e\<rparr>)) i rqs) =
          (Rejected e :: 'j promise)"
    by (simp add: deleteTodo_def fetch_def answer_def)
  have click: "todolistEl_click (answer (Fulfilled \<lparr>status = st, json = Fulfilled j\<rparr>))
                 get_server el a =
               (if className el = ''todo_delete-btn''
                then refetch get_server
                       (a\<lparr>sent := sent a @
                          [\<lparr>url = baseURL @ ''/'' @ template_string (parentElement_id el),
                            http_method = DELETE,
                            headers = [(''Content-Type'', ''application/json'')],
                            body = None\<rparr>]\<rparr>)
                else a)" for el
    by (simp add: todolistEl_click_def deleteTodo_def fetch_def answer_def on_settled_def
        Let_def)
  have click': "todolistEl_click (answer (Fulfilled \<lparr>status = st', json = Fulfilled j'\<rparr>))
                 get_server element a =
               (if className element = ''todo_delete-btn''
                then refetch get_server
                       (a\<lparr>sent := sent a @
                          [\<lparr>url = baseURL @ ''/'' @ template_string (parentElement_id element),
                            http_method = DELETE,
                            headers = [(''Content-Type'', ''application/json'')],
                            body = None\<rparr>]\<rparr>)
                else a)"
    by (simp add: todolistEl_click_def deleteTodo_def fetch_def answer_def on_settled_def
        Let_def)
  show "todolistEl_click (answer (Fulfilled \<lparr>status = st, json = Fulfilled j\<rparr>))
          get_server element a =
        todolistEl_click (answer (Fulfilled \<lparr>status = st', json = Fulfilled j'\<rparr>))
          get_server element a"
    by (simp only: click click')
  show "todolistEl_click (answer (Fulfilled \<lparr>status = st, json = Fulfilled j\<rparr>)) get_server
          \<lparr>className = ''todo_delete-btn'', parentElement_id = i\<rparr> a =
        refetch get_server (a\<lparr>sent := sent a @ [?del]\<rparr>)"
    by (simp add: click)
  have kept: "sent (assign_todos x c) = sent c" for x c
    using assign_todos_result [of x c] by simp
  have again: "refetch get_server b =
                 on_settled (then_promise (get_server ?get) json) assign_todos
                   (b\<lparr>sent := sent b @ [?get]\<rparr>)"
    by (simp add: refetch_def getTodos_def fetch_def)
  show "sent (refetch get_server b) = sent b @ [?get]"
    by (simp add: again sent_on_settled [of assign_todos, OF kept])
  have "refetch (answer (Fulfilled \<lparr>status = gst, json = Fulfilled fetched\<rparr>)) b =
          assign_todos fetched (b\<lparr>sent := sent b @ [?get]\<rparr>)"
    by (simp add: refetch_def getTodos_def fetch_def answer_def on_settled_def)
  then show "get_todos (state (refetch (answer (Fulfilled \<lparr>status = gst, json = Fulfilled fetched\<rparr>))
               b)) = fetched"
    using assign_todos_result [of fetched "b\<lparr>sent := sent b @ [?get]\<rparr>"] by simp
  show "todolistEl_click
          (answer (Fulfilled \<lparr>status = st, json = (Rejected e :: 'j promise)\<rparr>)) get_server
          \<lparr>className = ''todo_delete-btn'', parentElement_id = i\<rparr> a =
        a\<lparr>sent := sent a @ [?del], unhandled := unhandled a @ [e]\<rparr>"
    by (simp add: todolistEl_click_def deleteTodo_def fetch_def answer_def on_settled_def
        Let_def)
qed

theorem delete_confirmation_witness:
  "todolistEl_click (answer (Fulfilled \<lparr>status = 200, json = Fulfilled ''{}''\<rparr>))
     (answer (Fulfilled \<lparr>status = 200, json = Fulfilled [item42]\<rparr>))
     \<lparr>className = ''todo_delete-btn'', parentElement_id = Some ''7''\<rparr> app0 =
   todolistEl_click (answer (Fulfilled \<lparr>status = 200, json = Fulfilled item7\<rparr>))
     (answer (Fulfilled \<lparr>status = 200, json = Fulfilled [item42]\<rparr>))
     \<lparr>className = ''todo_delete-btn'', parentElement_id = Some ''7''\<rparr> app0
   \<and> get_todos (state (refetch (answer (Fulfilled \<lparr>status = 200, json = Fulfilled [item42]\<rparr>))
         app0)) = [item42]"
  using delete_confirmation
    [where st = 200 and j = "''{}''" and st' = 200 and j' = item7 and i = "Some ''7''"
       and rqs = "[]" and a = app0 and b = app0 and e = MalformedJSON
       and gst = 200 and fetched = "[item42]"
       and get_server = "answer (Fulfilled \<lparr>status = 200, json = Fulfilled [item42]\<rparr>)"
       and element = "\<lparr>className = ''todo_delete-btn'', parentElement_id = Some ''7''\<rparr>"]
  by blast

text \<open>
  Claim C9, as the specification states it, fails: a confirmation with an empty body
  (status 204) does not parse, so \<^verbatim>\<open>deleteTodo\<close> is rejected and the list is not fetched
  again; it still holds item 7, where a confirmation with the body \<^verbatim>\<open>{}\<close> ends with the
  fetched list. The outcome depends on the body.
\<close>

theorem delete_confirmation_counterexample:
  "fst (deleteTodo
          (answer (Fulfilled \<lparr>status = 204, json = (Rejected MalformedJSON :: string promise)\<rparr>))
          (Some ''7'') []) = Rejected MalformedJSON
   \<and> get_todos (state (todolistEl_click
         (answer (Fulfilled \<lparr>status = 204, json = (Rejected MalformedJSON :: string promise)\<rparr>))
         (answer (Fulfilled \<lparr>status = 200, json = Fulfilled [item42]\<rparr>))
         \<lparr>className = ''todo_delete-btn'', parentElement_id = Some ''7''\<rparr> app0)) = [item7]
   \<and> unhandled (todolistEl_click
         (answer (Fulfilled \<lparr>status = 204, json = (Rejected MalformedJSON :: string promise)\<rparr>))
         (answer (Fulfilled \<lparr>status = 200, json = Fulfilled [item42]\<rparr>))
         \<lparr>className = ''todo_delete-btn'', parentElement_id = Some ''7''\<rparr> app0) =
       [MalformedJSON]
   \<and> get_todos (state (todolistEl_click
         (answer (Fulfilled \<lparr>status = 200, json = Fulfilled ''{}''\<rparr>))
         (answer (Fulfilled \<lparr>status = 200, json = Fulfilled [item42]\<rparr>))
         \<lparr>className = ''todo_delete-btn'', parentElement_id = Some ''7''\<rparr> app0)) = [item42]"
  by (simp add: todolistEl_click_def deleteTodo_def refetch_def getTodos_def fetch_def
      answer_def on_settled_def assign_todos_def set_todos_def get_todos_def app0_eq Let_def)

text \<open>
  Claim C5. A click on a delete control whose parent block has the id \<open>i\<close>: when the
  delete request for \<open>i\<close> resolves and the following request for the list resolves to
  \<open>L2\<close>, exactly these two requests were sent, in this order, and the list of the state
  is \<open>L2\<close> itself, whatever it held before; the registered callback has been applied to
  \<open>L2\<close>.
\<close>

theorem delete_flow_refetches:
  assumes "className element = ''todo_delete-btn''"
    and "parentElement_id element = Some i"
    and "del_server \<lparr>url = baseURL @ ''/'' @ i, http_method = DELETE,
             headers = [(''Content-Type'', ''application/json'')], body = None\<rparr> = Fulfilled r"
    and "json r = Fulfilled j"
    and "get_server \<lparr>url = baseURL, http_method = GET, headers = [], body = None\<rparr> =
           Fulfilled r2"
    and "json r2 = Fulfilled L2"
  shows "sent (todolistEl_click del_server get_server element a) =
           sent a @ [\<lparr>url = baseURL @ ''/'' @ i, http_method = DELETE,
                      headers = [(''Content-Type'', ''application/json'')], body = None\<rparr>,
                     \<lparr>url = baseURL, http_method = GET, headers = [], body = None\<rparr>]
         \<and> get_todos (state (todolistEl_click del_server get_server element a)) = L2
         \<and> (case onChange (state a) of
               Some cb \<Rightarrow>
                 view (todolistEl_click del_server get_server element a) = cb L2 (view a)
             | None \<Rightarrow> view (todolistEl_click del_server get_server element a) = view a)"
proof -
  let ?del = "\<lparr>url = baseURL @ ''/'' @ i, http_method = DELETE,
               headers = [(''Content-Type'', ''application/json'')], body = None\<rparr>"
  let ?get = "\<lparr>url = baseURL, http_method = GET, headers = [], body = None\<rparr>"
  let ?a2 = "a\<lparr>sent := sent a @ [?del, ?get]\<rparr>"
  have click: "todolistEl_click del_server get_server element a =
                 refetch get_server (a\<lparr>sent := sent a @ [?del]\<rparr>)"
    using assms(1-4)
    by (simp add: todolistEl_click_def deleteTodo_def fetch_def template_string_def
        on_settled_def Let_def)
  have again: "refetch get_server b = assign_todos L2 (b\<lparr>sent := sent b @ [?get]\<rparr>)" for b
    using assms(5,6) by (simp add: refetch_def getTodos_def fetch_def on_settled_def)
  have flow: "todolistEl_click del_server get_server element a = assign_todos L2 ?a2"
    by (simp add: click again)
  from assign_todos_result [of L2 ?a2] have
    "get_todos (state (assign_todos L2 ?a2)) = L2"
    "sent (assign_todos L2 ?a2) = sent a @ [?del, ?get]"
    "case onChange (state a) of
       Some cb \<Rightarrow> view (assign_todos L2 ?a2) = cb L2 (view a)
     | None \<Rightarrow> view (assign_todos L2 ?a2) = view a"
    by (simp_all split: option.splits)
  then show ?thesis
    by (simp only: flow)
qed

theorem delete_flow_refetches_witness:
  "className \<lparr>className = ''todo_delete-btn'', parentElement_id = Some ''7''\<rparr> =
     ''todo_delete-btn''
   \<and> get_todos (state app0) = [item7]
   \<and> get_todos (state (todolistEl_click
         (answer (Fulfilled \<lparr>status = 200, json = Fulfilled ''{}''\<rparr>))
         (answer (Fulfilled \<lparr>status = 200, json = Fulfilled [item42]\<rparr>))
         \<lparr>className = ''todo_delete-btn'', parentElement_id = Some ''7''\<rparr> app0)) = [item42]
   \<and> map url (sent (todolistEl_click
         (answer (Fulfilled \<lparr>status = 200, json = Fulfilled ''{}''\<rparr>))
         (answer (Fulfilled \<lparr>status = 200, json = Fulfilled [item42]\<rparr>))
         \<lparr>className = ''todo_delete-btn'', parentElement_id = Some ''7''\<rparr> app0)) =
       [baseURL, baseURL @ ''/7'', baseURL]"
proof -
  let ?el = "\<lparr>className = ''todo_delete-btn'', parentElement_id = Some ''7''\<rparr>"
  let ?ds = "answer (Fulfilled \<lparr>status = 200, json = Fulfilled ''{}''\<rparr>)"
  let ?gs = "answer (Fulfilled \<lparr>status = 200, json = Fulfilled [item42]\<rparr>)"
  have h1: "className ?el = ''todo_delete-btn''" and h2: "parentElement_id ?el = Some ''7''"
    by simp_all
  have h3: "?ds \<lparr>url = baseURL @ ''/'' @ ''7'', http_method = DELETE,
             headers = [(''Content-Type'', ''application/json'')], body = None\<rparr> =
            Fulfilled \<lparr>status = 200, json = Fulfilled ''{}''\<rparr>"
    by (simp add: answer_def)
  have h4: "json \<lparr>status = 200, json = Fulfilled ''{}''\<rparr> = Fulfilled ''{}''"
    by simp
  have h5: "?gs \<lparr>url = baseURL, http_method = GET, headers = [], body = None\<rparr> =
            Fulfilled \<lparr>status = 200, json = Fulfilled [item42]\<rparr>"
    by (simp add: answer_def)
  have h6: "json \<lparr>status = 200, json = Fulfilled [item42]\<rparr> = Fulfilled [item42]"
    by simp
  from delete_flow_refetches
         [where del_server = ?ds and get_server = ?gs and element = ?el and i = "''7''"
            and a = app0, OF h1 h2 h3 h4 h5 h6] h1
  show ?thesis
    by (simp add: app0_eq get_todos_def)
qed

text \<open>
  Claim C4. A click on the add button sends one POST whose body is
  \<^verbatim>\<open>{content: v}\<close> with \<open>v\<close> the value of the input field as it is, the empty string
  included. When that request resolves to the item \<open>t\<close> (and the render callback is
  registered, as it is after \<^verbatim>\<open>init\<close>), the list is the previous list with \<open>t\<close> appended
  at the end, the callback has been applied to it, and the input field reads the empty
  string. The continuation does the same on whatever state it finds when it runs.
\<close>

theorem add_flow:
  "sent (addBtnEl_click server a) =
     sent a @ [\<lparr>url = baseURL, http_method = POST,
                headers = [(''Content-Type'', ''application/json'')],
                body = Some \<lparr>new_content = inputEl_value (view a)\<rparr>\<rparr>]
   \<and> (server \<lparr>url = baseURL, http_method = POST,
               headers = [(''Content-Type'', ''application/json'')],
               body = Some \<lparr>new_content = inputEl_value (view a)\<rparr>\<rparr> = Fulfilled r
        \<and> json r = Fulfilled t \<and> onChange (state a) = Some cb
      \<longrightarrow> get_todos (state (addBtnEl_click server a)) = get_todos (state a) @ [t]
          \<and> inputEl_value (view (addBtnEl_click server a)) = ''''
          \<and> view (addBtnEl_click server a) =
               clearInput (cb (get_todos (state a) @ [t]) (view a)))
   \<and> (onChange (state b) = Some cb'
      \<longrightarrow> get_todos (state (add_then t' b)) = get_todos (state b) @ [t']
          \<and> inputEl_value (view (add_then t' b)) = '''')"
proof (intro conjI impI)
  let ?post = "\<lparr>url = baseURL, http_method = POST,
                headers = [(''Content-Type'', ''application/json'')],
                body = Some \<lparr>new_content = inputEl_value (view a)\<rparr>\<rparr>"
  let ?a1 = "a\<lparr>sent := sent a @ [?post]\<rparr>"
  have click: "addBtnEl_click server a = on_settled (then_promise (server ?post) json) add_then ?a1"
    by (simp add: addBtnEl_click_def createTodo_def fetch_def getInputValue_def Let_def)
  have kept: "sent (add_then x c) = sent c" for x c
    using add_then_result [of x c] by simp
  show "sent (addBtnEl_click server a) = sent a @ [?post]"
    by (simp add: click sent_on_settled [of add_then, OF kept])
  {
    assume resolved: "server ?post = Fulfilled r \<and> json r = Fulfilled t \<and> onChange (state a) = Some cb"
    then have flow: "addBtnEl_click server a = add_then t ?a1"
      by (simp add: click on_settled_def)
    from resolved have sub: "onChange (state ?a1) = Some cb"
      by simp
    from add_then_result [of t ?a1] sub
    have lst: "get_todos (state (add_then t ?a1)) = get_todos (state a) @ [t]"
      and page: "view (add_then t ?a1) = clearInput (cb (get_todos (state a) @ [t]) (view a))"
      by simp_all
    show "get_todos (state (addBtnEl_click server a)) = get_todos (state a) @ [t]"
      by (simp only: flow lst)
    show "view (addBtnEl_click server a) = clearInput (cb (get_todos (state a) @ [t]) (view a))"
      by (simp only: flow page)
    show "inputEl_value (view (addBtnEl_click server a)) = ''''"
      by (simp add: flow page clearInput_def)
  }
  {
    assume sub: "onChange (state b) = Some cb'"
    with add_then_result [of t' b]
    show "get_todos (state (add_then t' b)) = get_todos (state b) @ [t']"
      and "inputEl_value (view (add_then t' b)) = ''''"
      by (simp_all add: clearInput_def)
  }
qed

theorem add_flow_witness:
  "onChange (state app0) = Some renderTodos
   \<and> inputEl_value (view app0) = ''Buy milk''
   \<and> map body (sent (addBtnEl_click
         (answer (Fulfilled \<lparr>status = 201, json = Fulfilled item42\<rparr>)) app0)) =
       [None, Some \<lparr>new_content = ''Buy milk''\<rparr>]
   \<and> get_todos (state (addBtnEl_click
         (answer (Fulfilled \<lparr>status = 201, json = Fulfilled item42\<rparr>)) app0)) =
       [item7, item42]
   \<and> inputEl_value (view (addBtnEl_click
         (answer (Fulfilled \<lparr>status = 201, json = Fulfilled item42\<rparr>)) app0)) = ''''"
proof -
  have sub: "onChange (state app0) = Some renderTodos"
    and val: "inputEl_value (view app0) = ''Buy milk''"
    and old: "get_todos (state app0) = [item7]"
    and rqs: "map body (sent app0) = [None]"
    by (simp_all add: app0_eq renderTodos_def page0_def get_todos_def)
  from add_flow
         [where server = "answer (Fulfilled \<lparr>status = 201, json = Fulfilled item42\<rparr>)"
            and a = app0 and r = "\<lparr>status = 201, json = Fulfilled item42\<rparr>" and t = item42
            and cb = renderTodos and b = app0 and cb' = renderTodos and t' = item42]
       sub val old rqs
  show ?thesis
    by (simp add: answer_def clearInput_def)
qed

section \<open>The View object: the markup of the list\<close>

lemma foldl_append_concat: "foldl (\<lambda>acc t. acc @ f t) acc ts = acc @ concat (map f ts)"
  by (induction ts arbitrary: acc) simp_all

lemma renderTodos_concat:
  "renderTodos L v = v\<lparr>todolistEl_innerHTML := concat (map todoItemTemp L)\<rparr>"
  by (simp add: renderTodos_def foldl_append_concat)

lemma occurrences_skip:
  assumes "c \<notin> set xs"
  shows "occurrences (c # p) (xs @ ys) = occurrences (c # p) ys"
  using assms by (induction xs) auto

lemma block_open_todoItemTemp:
  assumes "CHR ''<'' \<notin> set (id t)" and "CHR ''<'' \<notin> set (content t)"
  shows "occurrences block_open (todoItemTemp t @ rest) = Suc (occurrences block_open rest)"
  using assms by (simp add: block_open_def todoItemTemp_def occurrences_skip)

lemma delete_control_todoItemTemp:
  assumes "CHR ''<'' \<notin> set (id t)" and "CHR ''<'' \<notin> set (content t)"
  shows "occurrences delete_control (todoItemTemp t @ rest) =
           Suc (occurrences delete_control rest)"
  using assms by (simp add: delete_control_def todoItemTemp_def occurrences_skip)

lemma occurrences_blocks:
  assumes "\<forall>t \<in> set L. CHR ''<'' \<notin> set (id t) \<and> CHR ''<'' \<notin> set (content t)"
  shows "occurrences block_open (concat (map todoItemTemp L)) = length L
         \<and> occurrences delete_control (concat (map todoItemTemp L)) = length L"
  using assms
proof (induction L)
  case Nil
  show ?case by simp
next
  case (Cons t L)
  then have here: "CHR ''<'' \<notin> set (id t)" "CHR ''<'' \<notin> set (content t)"
    and rest: "\<forall>u \<in> set L. CHR ''<'' \<notin> set (id u) \<and> CHR ''<'' \<notin> set (content u)"
    by simp_all
  from Cons.IH [OF rest] show ?case
    by (simp add: block_open_todoItemTemp [OF here] delete_control_todoItemTemp [OF here])
qed

text \<open>
  Claim C6, as the code has it. \<^verbatim>\<open>renderTodos(L)\<close> replaces the markup of the container,
  and nothing else of the page, with the blocks of the items of \<open>L\<close> one after the
  other in the order of \<open>L\<close>: each block is the template with the id of its item written
  after \<^verbatim>\<open><div id=\<close> and the content of the item written before the delete button, both
  as they are, with no escaping. This is the page after \<^verbatim>\<open>init\<close> when the first fetch
  resolves to \<open>L\<close>. When no id and no content of \<open>L\<close> contains the character \<^verbatim>\<open><\<close>, the
  markup has exactly \<open>length L\<close> block openings and exactly \<open>length L\<close> delete buttons.
\<close>

theorem render_markup:
  "todolistEl_innerHTML (renderTodos L v) = concat (map todoItemTemp L)
   \<and> inputEl_value (renderTodos L v) = inputEl_value v
   \<and> view (init (answer (Fulfilled \<lparr>status = st, json = Fulfilled L\<rparr>)) (Controller page)) =
       renderTodos L page
   \<and> ((\<forall>t \<in> set L. CHR ''<'' \<notin> set (id t) \<and> CHR ''<'' \<notin> set (content t)) \<longrightarrow>
         occurrences block_open (todolistEl_innerHTML (renderTodos L v)) = length L
         \<and> occurrences delete_control (todolistEl_innerHTML (renderTodos L v)) = length L)"
proof (intro conjI impI)
  show markup: "todolistEl_innerHTML (renderTodos L v) = concat (map todoItemTemp L)"
    by (simp add: renderTodos_concat)
  show "inputEl_value (renderTodos L v) = inputEl_value v"
    by (simp add: renderTodos_concat)
  show "view (init (answer (Fulfilled \<lparr>status = st, json = Fulfilled L\<rparr>)) (Controller page)) =
          renderTodos L page"
    by (simp add: init_def init_sync_def getTodos_def fetch_def answer_def on_settled_def
        assign_todos_def set_todos_def get_todos_def subscribe_def constructor_def
        Controller_def Let_def)
  {
    assume plain: "\<forall>t \<in> set L. CHR ''<'' \<notin> set (id t) \<and> CHR ''<'' \<notin> set (content t)"
    from occurrences_blocks [OF plain]
    show "occurrences block_open (todolistEl_innerHTML (renderTodos L v)) = length L"
      and "occurrences delete_control (todolistEl_innerHTML (renderTodos L v)) = length L"
      by (simp_all only: markup)
  }
qed

theorem render_markup_witness:
  "CHR ''<'' \<notin> set (id item42) \<and> CHR ''<'' \<notin> set (content item42)
   \<and> CHR ''<'' \<notin> set (id item7) \<and> CHR ''<'' \<notin> set (content item7)
   \<and> occurrences block_open (todolistEl_innerHTML (renderTodos [item42, item7] page0)) = 2
   \<and> occurrences delete_control (todolistEl_innerHTML (renderTodos [item42, item7] page0)) = 2"
proof -
  have plain: "CHR ''<'' \<notin> set (id item42) \<and> CHR ''<'' \<notin> set (content item42)
               \<and> CHR ''<'' \<notin> set (id item7) \<and> CHR ''<'' \<notin> set (content item7)"
    by (simp add: item42_def item7_def)
  then have all: "\<forall>t \<in> set [item42, item7].
                    CHR ''<'' \<notin> set (id t) \<and> CHR ''<'' \<notin> set (content t)"
    by simp
  have two: "length [item42, item7] = 2"
    by simp
  from render_markup [where L = "[item42, item7]" and v = page0 and st = 200 and page = page0]
       all
  have "occurrences block_open (todolistEl_innerHTML (renderTodos [item42, item7] page0)) =
          length [item42, item7]
        \<and> occurrences delete_control
            (todolistEl_innerHTML (renderTodos [item42, item7] page0)) =
          length [item42, item7]"
    by blast
  with plain show ?thesis
    by (simp only: two) blast
qed

text \<open>
  Claim C6, as the specification states it, fails: the content is written into the
  markup as it is, so one item whose content closes its block and opens another gives a
  container with two block openings for a list of length one.
\<close>

theorem render_markup_counterexample:
  "length [\<lparr>id = ''1'', content = ''</div><div id=2>''\<rparr>] = 1
   \<and> occurrences block_open
         (todolistEl_innerHTML
            (renderTodos [\<lparr>id = ''1'', content = ''</div><div id=2>''\<rparr>] page0)) = 2"
  by (simp add: renderTodos_def todoItemTemp_def block_open_def)

end
